theory Spec2Isabelle
  imports Complex_Main "HOL-Library.Multiset"
begin

section \<open>Joint replenishment solver (models/jrp_solver.py)\<close>

text \<open>
  The solver works on Python floats. They are modelled as the reals: every arithmetic
  operation is exact, there is no infinity and no NaN, and rounding error is outside the
  model. Everything else is kept as the source has it: a division raises
  ZeroDivisionError on a zero divisor, \<open>math.sqrt\<close> raises ValueError on a negative
  argument, \<open>round\<close> rounds halves to the even neighbour, \<open>list.sort\<close> is stable, and
  a dictionary comprehension keeps the last value written under a key.
\<close>

subsection \<open>Data\<close>

record Item =
  item_id :: string
  item_a :: real
  item_D :: real
  item_v :: real

record JRPParams =
  param_A :: real
  param_r :: real
  param_items :: "Item list"

text \<open>The dictionary returned by \<open>total_cost\<close>.\<close>

record cost_breakdown =
  cb_total :: real
  cb_family_setup :: real
  cb_item_setup :: real
  cb_holding :: real

text \<open>One entry of \<open>compute_item_metrics\<close>.\<close>

record item_metrics =
  res_id :: string
  res_DiVi :: real
  res_m :: int
  res_T_star :: real
  res_Qivi :: real
  res_cycle_time :: real
  res_avg_inventory :: real
  res_annual_holding_cost :: real
  res_annual_setup_cost :: real

text \<open>One entry of the item list of \<open>find_independent_policy\<close>.\<close>

record eoq_metrics =
  eoq_id :: string
  eoq_DiVi :: real
  eoq_m :: int
  eoq_cycle_time :: real
  eoq_avg_inventory :: real
  eoq_annual_holding_cost :: real
  eoq_annual_setup_cost :: real
  eoq_Q_i :: real
  eoq_total_cost_item :: real

text \<open>
  The cost breakdown of the independent policy: \<open>family_setup\<close> is always \<open>None\<close> there.
\<close>

record eoq_breakdown =
  eoq_family_setup :: "real option"
  eoq_item_setup :: real
  eoq_holding :: real

text \<open>
  The solution dictionary. Both solvers return the same keys; the entries of
  \<open>item_results\<close> and of \<open>cost_breakdown\<close> differ, so the record is polymorphic in them.
  \<open>T_star\<close> is \<open>None\<close> for the independent policy.
\<close>

record ('r, 'c) solution =
  sol_T_star :: "real option"
  sol_m :: "int list"
  sol_item_results :: "'r list"
  sol_total_cost :: real
  sol_cost_breakdown :: 'c
  sol_method :: string

record comparison =
  T_star_diff :: real
  cost_diff :: real
  better :: string
  items_count_diff :: int

subsection \<open>Exceptions and the Python primitives the solver calls\<close>

datatype error =
    ZeroDivisionError
  | IndexError
  | KeyError string
  | ValueError string

definition and_then :: "error + 'a \<Rightarrow> ('a \<Rightarrow> error + 'b) \<Rightarrow> error + 'b" where
  "and_then r f = (case r of Inl e \<Rightarrow> Inl e | Inr x \<Rightarrow> f x)"

text \<open>A comprehension or loop whose body may raise: elements in order, first error wins.\<close>

fun map_err :: "('a \<Rightarrow> error + 'b) \<Rightarrow> 'a list \<Rightarrow> error + 'b list" where
  "map_err f [] = Inr []"
| "map_err f (x # xs) =
     (case f x of
        Inl e \<Rightarrow> Inl e
      | Inr y \<Rightarrow> (case map_err f xs of Inl e \<Rightarrow> Inl e | Inr ys \<Rightarrow> Inr (y # ys)))"

definition py_div :: "real \<Rightarrow> real \<Rightarrow> error + real" where
  "py_div x y = (if y = 0 then Inl ZeroDivisionError else Inr (x / y))"

definition py_sqrt :: "real \<Rightarrow> error + real" where
  "py_sqrt x = (if x < 0 then Inl (ValueError ''math domain error'') else Inr (sqrt x))"

text \<open>\<open>round(x)\<close> with one argument: the nearest integer, a half going to the even one.\<close>

definition py_round :: "real \<Rightarrow> int" where
  "py_round x =
     (let f = \<lfloor>x\<rfloor>; d = x - of_int f
      in if d < 1 / 2 then f
         else if 1 / 2 < d then f + 1
         else if even f then f else f + 1)"

subsection \<open>Cost breakdown and per-item metrics\<close>

definition total_cost ::
  "real \<Rightarrow> real \<Rightarrow> Item list \<Rightarrow> real \<Rightarrow> int list \<Rightarrow> error + cost_breakdown" where
  "total_cost A r items T m_list =
     and_then (map_err (\<lambda>(it, m). py_div (item_a it) (of_int m)) (zip items m_list)) (\<lambda>qs.
     and_then (py_div (A + sum_list qs) T) (\<lambda>group_over_T.
     let holding_sum =
           sum_list (map (\<lambda>(it, m). (item_D it * of_int m * T * item_v it * r) / 2)
                         (zip items m_list))
     in
     and_then (py_div A T) (\<lambda>family_setup.
     and_then (map_err (\<lambda>(it, m). py_div (item_a it) (of_int m * T)) (zip items m_list))
       (\<lambda>ss.
     Inr \<lparr>cb_total = group_over_T + holding_sum,
          cb_family_setup = family_setup,
          cb_item_setup = sum_list ss,
          cb_holding = holding_sum\<rparr>))))"

definition item_metric :: "real \<Rightarrow> real \<Rightarrow> Item \<times> int \<Rightarrow> error + item_metrics" where
  "item_metric T_star r = (\<lambda>(it, m).
     let DiVi = item_D it * item_v it;
         Qivi = DiVi * of_int m * T_star;
         cycle_time = of_int m * T_star
     in
     and_then (py_div Qivi (2 * item_v it)) (\<lambda>avg_inventory.
     let annual_holding_cost = avg_inventory * item_v it * r in
     and_then (py_div (item_a it) (of_int m * T_star)) (\<lambda>annual_setup_cost.
     Inr \<lparr>res_id = item_id it,
          res_DiVi = DiVi,
          res_m = m,
          res_T_star = T_star,
          res_Qivi = Qivi,
          res_cycle_time = cycle_time,
          res_avg_inventory = avg_inventory,
          res_annual_holding_cost = annual_holding_cost,
          res_annual_setup_cost = annual_setup_cost\<rparr>)))"

definition compute_item_metrics ::
  "Item list \<Rightarrow> real \<Rightarrow> int list \<Rightarrow> real \<Rightarrow> error + item_metrics list" where
  "compute_item_metrics items T_star m_list r = map_err (item_metric T_star r) (zip items m_list)"

subsection \<open>The formula-based joint policy\<close>

text \<open>Step 1 (lines 73 to 75): the ratio of every item, then a stable sort on it.\<close>

definition rank_items :: "Item list \<Rightarrow> error + Item list" where
  "rank_items items =
     and_then (map_err (\<lambda>it. and_then (py_div (item_a it) (item_D it * item_v it))
                                  (\<lambda>q. Inr (q, it))) items) (\<lambda>ratios.
     Inr (map snd (sort_key fst ratios)))"

text \<open>The body of the loop of step 3 (lines 83 and 84).\<close>

definition multiplier :: "real \<Rightarrow> Item \<Rightarrow> Item \<Rightarrow> error + int" where
  "multiplier A base_item it =
     and_then (py_div (item_a it * item_D base_item * item_v base_item)
                      ((A + item_a base_item) * (item_D it * item_v it))) (\<lambda>q.
     and_then (py_sqrt q) (\<lambda>m_val.
     Inr (max 1 (py_round m_val))))"

text \<open>The dictionary of line 100: a later entry replaces an earlier one with the same id.\<close>

definition id_to_result :: "item_metrics list \<Rightarrow> string \<rightharpoonup> item_metrics" where
  "id_to_result item_results = map_of (rev (map (\<lambda>res. (res_id res, res)) item_results))"

definition lookup_result :: "(string \<rightharpoonup> item_metrics) \<Rightarrow> Item \<Rightarrow> error + item_metrics" where
  "lookup_result d it =
     (case d (item_id it) of None \<Rightarrow> Inl (KeyError (item_id it)) | Some res \<Rightarrow> Inr res)"

definition find_formula_policy ::
  "JRPParams \<Rightarrow> error + (item_metrics, cost_breakdown) solution" where
  "find_formula_policy params =
     (let items = param_items params; A = param_A params; r = param_r params in
      and_then (rank_items items) (\<lambda>ordered_items.
      case ordered_items of
        [] \<Rightarrow> Inl IndexError
      | base_item # rest \<Rightarrow>
      and_then (map_err (multiplier A base_item) rest) (\<lambda>ms.
      let m_list = 1 # ms in
      and_then (map_err (\<lambda>(it, m). py_div (item_a it) (of_int m)) (zip ordered_items m_list))
        (\<lambda>qs.
      let numerator = 2 * (A + sum_list qs);
          denominator =
            r * sum_list (map (\<lambda>(it, m). item_D it * item_v it * of_int m)
                              (zip ordered_items m_list))
      in
      if denominator \<le> 0
      then Inl (ValueError ''Denominator for T* is non-positive; check parameters.'')
      else
      and_then (py_div numerator denominator) (\<lambda>q.
      and_then (py_sqrt q) (\<lambda>T_star.
      and_then (compute_item_metrics ordered_items T_star m_list r) (\<lambda>item_results.
      and_then (total_cost A r ordered_items T_star m_list) (\<lambda>cb.
      and_then (map_err (lookup_result (id_to_result item_results)) items)
        (\<lambda>ordered_results.
      Inr \<lparr>sol_T_star = Some T_star,
           sol_m = map res_m ordered_results,
           sol_item_results = ordered_results,
           sol_total_cost = cb_total cb,
           sol_cost_breakdown = cb,
           sol_method = ''formula''\<rparr>)))))))))"

subsection \<open>Comparison of two solutions\<close>

text \<open>\<open>x or 0\<close>: \<open>None\<close> and \<open>0.0\<close> are both falsy and both give 0.\<close>

definition or_zero :: "real option \<Rightarrow> real" where
  "or_zero t = (case t of None \<Rightarrow> 0 | Some x \<Rightarrow> if x = 0 then 0 else x)"

definition compare_policies :: "('r, 'c) solution \<Rightarrow> ('s, 'd) solution \<Rightarrow> comparison" where
  "compare_policies sol1 sol2 =
     \<lparr>T_star_diff = or_zero (sol_T_star sol1) - or_zero (sol_T_star sol2),
      cost_diff = sol_total_cost sol1 - sol_total_cost sol2,
      better = (if sol_total_cost sol1 < sol_total_cost sol2
                then ''Instance 1'' else ''Instance 2''),
      items_count_diff =
        int (length (sol_item_results sol1)) - int (length (sol_item_results sol2))\<rparr>"

subsection \<open>The independent policy\<close>

text \<open>The body of the loop of lines 137 to 161, up to the entry it appends.\<close>

definition eoq_item :: "real \<Rightarrow> real \<Rightarrow> Item \<Rightarrow> error + eoq_metrics" where
  "eoq_item A r it =
     (let DiVi = item_D it * item_v it in
      and_then (py_div (2 * (A + item_a it) * item_D it) (r * item_v it)) (\<lambda>q.
      and_then (py_sqrt q) (\<lambda>Q_i.
      and_then (py_div Q_i (item_D it)) (\<lambda>cycle_time.
      let avg_inventory = Q_i / 2 in
      and_then (py_div (item_D it) Q_i) (\<lambda>dq.
      let annual_setup_cost = (A + item_a it) * dq;
          annual_holding_cost = avg_inventory * item_v it * r;
          TC_i = annual_setup_cost + annual_holding_cost
      in
      Inr \<lparr>eoq_id = item_id it,
           eoq_DiVi = DiVi,
           eoq_m = 1,
           eoq_cycle_time = cycle_time,
           eoq_avg_inventory = avg_inventory,
           eoq_annual_holding_cost = annual_holding_cost,
           eoq_annual_setup_cost = annual_setup_cost,
           eoq_Q_i = Q_i,
           eoq_total_cost_item = TC_i\<rparr>)))))"

text \<open>
  The loop itself, with its four accumulators: the entries so far and the running sums
  \<open>total_cost\<close>, \<open>total_setup\<close> and \<open>total_holding\<close>.
\<close>

fun eoq_loop ::
  "real \<Rightarrow> real \<Rightarrow> Item list \<Rightarrow> eoq_metrics list \<times> real \<times> real \<times> real \<Rightarrow>
   error + (eoq_metrics list \<times> real \<times> real \<times> real)" where
  "eoq_loop A r [] acc = Inr acc"
| "eoq_loop A r (it # rest) (item_results, tc, total_setup, total_holding) =
     (case eoq_item A r it of
        Inl e \<Rightarrow> Inl e
      | Inr res \<Rightarrow>
          eoq_loop A r rest
            (item_results @ [res],
             tc + eoq_total_cost_item res,
             total_setup + eoq_annual_setup_cost res,
             total_holding + eoq_annual_holding_cost res))"

definition find_independent_policy ::
  "JRPParams \<Rightarrow> error + (eoq_metrics, eoq_breakdown) solution" where
  "find_independent_policy params =
     (let items = param_items params; A = param_A params; r = param_r params in
      and_then (eoq_loop A r items ([], 0, 0, 0))
        (\<lambda>(item_results, tc, total_setup, total_holding).
      Inr \<lparr>sol_T_star = None,
           sol_m = replicate (length items) 1,
           sol_item_results = item_results,
           sol_total_cost = tc,
           sol_cost_breakdown =
             \<lparr>eoq_family_setup = None,
              eoq_item_setup = total_setup,
              eoq_holding = total_holding\<rparr>,
           sol_method = ''independent_eoq''\<rparr>))"

subsection \<open>Sensitivity curves\<close>

text \<open>
  The three sweeps run the same loop: build \<open>local_params\<close> from the sample, solve, append
  the sample to \<open>x_vals\<close> and the total cost to \<open>y_vals\<close>. They differ in how
  \<open>local_params\<close> is built, which is the first argument here.
\<close>

fun curve_loop ::
  "(real \<Rightarrow> JRPParams) \<Rightarrow> real list \<Rightarrow> real list \<times> real list \<Rightarrow>
   error + (real list \<times> real list)" where
  "curve_loop mk [] acc = Inr acc"
| "curve_loop mk (val # vals) (x_vals, y_vals) =
     (case find_formula_policy (mk val) of
        Inl e \<Rightarrow> Inl e
      | Inr sol \<Rightarrow> curve_loop mk vals (x_vals @ [val], y_vals @ [sol_total_cost sol]))"

definition sensitivity_curve_over_A ::
  "JRPParams \<Rightarrow> real list \<Rightarrow> error + (real list \<times> real list)" where
  "sensitivity_curve_over_A params A_values =
     curve_loop (\<lambda>A_val. \<lparr>param_A = A_val, param_r = param_r params,
                          param_items = param_items params\<rparr>) A_values ([], [])"

definition sensitivity_curve_over_r ::
  "JRPParams \<Rightarrow> real list \<Rightarrow> error + (real list \<times> real list)" where
  "sensitivity_curve_over_r params r_values =
     curve_loop (\<lambda>r_val. \<lparr>param_A = param_A params, param_r = r_val,
                          param_items = param_items params\<rparr>) r_values ([], [])"

text \<open>
  The inner loop of lines 204 to 214. An item with the swept id is rebuilt with one field
  replaced; the \<open>if\<close>/\<open>elif\<close> chain has no \<open>else\<close>, so for any other key nothing would
  be appended.
\<close>

definition new_items :: "Item list \<Rightarrow> string \<Rightarrow> string \<Rightarrow> real \<Rightarrow> Item list" where
  "new_items items iid key val =
     concat (map (\<lambda>it.
       if item_id it = iid then
         (if key = ''a'' then
            [\<lparr>item_id = item_id it, item_a = val, item_D = item_D it, item_v = item_v it\<rparr>]
          else if key = ''D'' then
            [\<lparr>item_id = item_id it, item_a = item_a it, item_D = val, item_v = item_v it\<rparr>]
          else if key = ''v'' then
            [\<lparr>item_id = item_id it, item_a = item_a it, item_D = item_D it, item_v = val\<rparr>]
          else [])
       else [it]) items)"

text \<open>
  The message of line 200 prints the set \<open>valid_keys\<close>; the order in which Python prints
  the three keys is not fixed, and this is one of them.
\<close>

definition key_error_message :: string where
  "key_error_message = ''key must be one of {'a', 'D', 'v'}''"

definition sensitivity_curve_over_item ::
  "JRPParams \<Rightarrow> string \<Rightarrow> string \<Rightarrow> real list \<Rightarrow> error + (real list \<times> real list)" where
  "sensitivity_curve_over_item params iid key vals =
     (if key \<notin> {''a'', ''D'', ''v''} then Inl (ValueError key_error_message)
      else
        curve_loop (\<lambda>val. \<lparr>param_A = param_A params, param_r = param_r params,
                           param_items = new_items (param_items params) iid key val\<rparr>)
                   vals ([], []))"

section \<open>Example instances\<close>

definition mk_item :: "string \<Rightarrow> real \<Rightarrow> real \<Rightarrow> real \<Rightarrow> Item" where
  "mk_item i a d v = \<lparr>item_id = i, item_a = a, item_D = d, item_v = v\<rparr>"

definition mk_params :: "real \<Rightarrow> real \<Rightarrow> Item list \<Rightarrow> JRPParams" where
  "mk_params A r items = \<lparr>param_A = A, param_r = r, param_items = items\<rparr>"

text \<open>A family whose second item has neither demand nor value.\<close>

definition degenerate_params :: JRPParams where
  "degenerate_params = mk_params 40 (1 / 4) [mk_item ''1L'' 15 500 2, mk_item ''5L'' 15 0 0]"

text \<open>A parameter set without items: solving it raises IndexError at line 79.\<close>

definition empty_params :: JRPParams where
  "empty_params = mk_params 40 (1 / 4) []"

definition stub_solution :: "real option \<Rightarrow> real \<Rightarrow> nat \<Rightarrow> (unit, unit) solution" where
  "stub_solution t c n =
     \<lparr>sol_T_star = t, sol_m = replicate n 1, sol_item_results = replicate n (),
      sol_total_cost = c, sol_cost_breakdown = (), sol_method = ''formula''\<rparr>"

section \<open>Basic facts about the error plumbing\<close>

lemma and_then_Inr_iff: "and_then r f = Inr y \<longleftrightarrow> (\<exists>x. r = Inr x \<and> f x = Inr y)"
  by (cases r) (simp_all add: and_then_def)

lemma and_then_Inr [simp]: "and_then (Inr x) f = f x"
  by (simp add: and_then_def)

lemma and_then_Inl [simp]: "and_then (Inl e) f = Inl e"
  by (simp add: and_then_def)

lemma map_err_InrD: "map_err f xs = Inr ys \<Longrightarrow> map f xs = map Inr ys"
  by (induction xs arbitrary: ys) (auto split: sum.splits)

lemma map_err_InrI: "map f xs = map Inr ys \<Longrightarrow> map_err f xs = Inr ys"
  by (induction xs arbitrary: ys) auto

lemma map_err_Inr_iff: "map_err f xs = Inr ys \<longleftrightarrow> map f xs = map Inr ys"
  by (blast intro: map_err_InrI dest: map_err_InrD)

lemma map_err_total:
  "(\<And>x. x \<in> set xs \<Longrightarrow> f x = Inr (g x)) \<Longrightarrow> map_err f xs = Inr (map g xs)"
  by (induction xs) simp_all

lemma map_err_first_error:
  assumes "\<exists>x \<in> set xs. f x = Inl e"
    and "\<And>x. x \<in> set xs \<Longrightarrow> f x = Inl e \<or> (\<exists>y. f x = Inr y)"
  shows "map_err f xs = Inl e"
  using assms
proof (induction xs)
  case Nil
  then show ?case by simp
next
  case (Cons x xs)
  show ?case
  proof (cases "f x")
    case (Inl e')
    with Cons.prems(2) [of x] show ?thesis by simp
  next
    case (Inr y)
    with Cons.prems(1) have "\<exists>x \<in> set xs. f x = Inl e" by auto
    with Cons.IH Cons.prems(2) have "map_err f xs = Inl e" by simp
    with Inr show ?thesis by simp
  qed
qed

section \<open>Degenerate items\<close>

text \<open>
  Claim C5. If some item has \<open>D = 0\<close> and \<open>v = 0\<close>, the joint solve returns no solution:
  the ratio of line 73 divides by \<open>D * v = 0\<close> and Python raises ZeroDivisionError, the
  division-by-zero condition the specification files under InvalidParameters. No other
  exception can come first, and no infinite or undefined ratio is produced.
\<close>

theorem degenerate_item_raises:
  assumes "\<exists>it \<in> set (param_items p). item_D it = 0 \<and> item_v it = 0"
  shows "find_formula_policy p = Inl ZeroDivisionError"
proof -
  let ?f = "\<lambda>it. and_then (py_div (item_a it) (item_D it * item_v it)) (\<lambda>q. Inr (q, it))"
  have "\<exists>it \<in> set (param_items p). ?f it = Inl ZeroDivisionError"
    using assms by (auto simp: py_div_def)
  moreover have "\<And>it. ?f it = Inl ZeroDivisionError \<or> (\<exists>y. ?f it = Inr y)"
    by (simp add: py_div_def)
  ultimately have "map_err ?f (param_items p) = Inl ZeroDivisionError"
    by (intro map_err_first_error) blast+
  then show ?thesis
    by (simp add: find_formula_policy_def rank_items_def Let_def)
qed

theorem degenerate_item_raises_witness:
  "(\<exists>it \<in> set (param_items degenerate_params). item_D it = 0 \<and> item_v it = 0)
   \<and> find_formula_policy degenerate_params = Inl ZeroDivisionError"
proof -
  have h: "\<exists>it \<in> set (param_items degenerate_params). item_D it = 0 \<and> item_v it = 0"
    by (simp add: degenerate_params_def mk_params_def mk_item_def)
  show ?thesis
    using h degenerate_item_raises [OF h] by simp
qed

section \<open>Comparison of two solutions\<close>

text \<open>
  Claim C9. For any two solutions, \<open>compare_policies\<close> returns the difference of the
  basic cycle times, an absent one counting as 0, the difference of the total costs, the
  difference of the numbers of item results, and the label of the cheaper solution:
  \<open>Instance 1\<close> when the first is strictly cheaper, \<open>Instance 2\<close> when the second is
  strictly cheaper and also when the two total costs are equal.
\<close>

theorem compare_policies_contract:
  "T_star_diff (compare_policies s1 s2) =
     (case sol_T_star s1 of None \<Rightarrow> 0 | Some t \<Rightarrow> t) -
     (case sol_T_star s2 of None \<Rightarrow> 0 | Some t \<Rightarrow> t)
   \<and> cost_diff (compare_policies s1 s2) = sol_total_cost s1 - sol_total_cost s2
   \<and> items_count_diff (compare_policies s1 s2) =
       int (length (sol_item_results s1)) - int (length (sol_item_results s2))
   \<and> (sol_total_cost s1 < sol_total_cost s2 \<longrightarrow>
        better (compare_policies s1 s2) = ''Instance 1'')
   \<and> (sol_total_cost s2 < sol_total_cost s1 \<longrightarrow>
        better (compare_policies s1 s2) = ''Instance 2'')
   \<and> (sol_total_cost s1 = sol_total_cost s2 \<longrightarrow>
        better (compare_policies s1 s2) = ''Instance 2'')"
  by (auto simp: compare_policies_def or_zero_def split: option.splits)

theorem compare_policies_contract_witness:
  "sol_total_cost (stub_solution (Some (1 / 2)) 300 3) < sol_total_cost (stub_solution None 400 2)
   \<and> better (compare_policies (stub_solution (Some (1 / 2)) 300 3) (stub_solution None 400 2))
       = ''Instance 1''
   \<and> T_star_diff (compare_policies (stub_solution (Some (1 / 2)) 300 3) (stub_solution None 400 2))
       = 1 / 2
   \<and> items_count_diff
        (compare_policies (stub_solution (Some (1 / 2)) 300 3) (stub_solution None 400 2)) = 1
   \<and> sol_total_cost (stub_solution None 400 2) < sol_total_cost (stub_solution (Some 1) 500 2)
   \<and> better (compare_policies (stub_solution (Some 1) 500 2) (stub_solution None 400 2))
       = ''Instance 2''
   \<and> sol_total_cost (stub_solution (Some 1) 400 2) = sol_total_cost (stub_solution None 400 2)
   \<and> better (compare_policies (stub_solution (Some 1) 400 2) (stub_solution None 400 2))
       = ''Instance 2''"
  using compare_policies_contract
          [of "stub_solution (Some (1 / 2)) 300 3" "stub_solution None 400 2"]
        compare_policies_contract
          [of "stub_solution (Some 1) 500 2" "stub_solution None 400 2"]
        compare_policies_contract
          [of "stub_solution (Some 1) 400 2" "stub_solution None 400 2"]
  by (simp add: stub_solution_def)

section \<open>Sweeps over an item attribute: the key check\<close>

text \<open>
  Claim C7. A sweep over an item attribute whose key is none of \<open>a\<close>, \<open>D\<close>, \<open>v\<close> raises
  the ValueError of line 200, with its message, whatever the parameters and the samples
  are. The check precedes the loop: the result is this error also for parameters on which
  every solve would raise another exception, so no solve has run.
\<close>

theorem invalid_key_raises:
  assumes "key \<notin> {''a'', ''D'', ''v''}"
  shows "sensitivity_curve_over_item p iid key vals = Inl (ValueError key_error_message)"
  using assms by (simp add: sensitivity_curve_over_item_def)

theorem invalid_key_raises_witness:
  "''m'' \<notin> {''a'', ''D'', ''v''}
   \<and> sensitivity_curve_over_item empty_params ''1L'' ''m'' [1, 2] =
       Inl (ValueError key_error_message)
   \<and> find_formula_policy empty_params = Inl IndexError"
proof -
  have h: "''m'' \<notin> {''a'', ''D'', ''v''}" by simp
  have "find_formula_policy empty_params = Inl IndexError"
    by (simp add: find_formula_policy_def rank_items_def empty_params_def mk_params_def)
  with h invalid_key_raises [OF h, of empty_params "''1L''" "[1, 2]"] show ?thesis
    by simp
qed

end
